theory Spec2Isabelle
  imports Complex_Main
begin

section \<open>The tutorial notebook \<open>doc/source/tutorials/unit_conversion.ipynb\<close>\<close>

text \<open>
  The notebook is a JSON document: a list \<open>cells\<close>, a \<open>metadata\<close> object and the two
  format numbers \<open>nbformat\<close> and \<open>nbformat_minor\<close>. Every cell carries a \<open>cell_type\<close>
  (a JSON string) and its \<open>source\<close>, a list of lines. The other keys of a cell
  (\<open>metadata = {}\<close> everywhere, and for code cells \<open>execution_count = null\<close> and
  \<open>outputs = []\<close>) hold no information and are left out, and so is the \<open>metadata\<close>
  of the document (the kernel and the language of the code cells, Python 3). The cell
  type stays a string, as in the file, so that which cell types occur is a property of
  the data.
\<close>

record cell =
  cell_type :: string
  source :: "string list"

record notebook =
  cells :: "cell list"
  nbformat :: nat
  nbformat_minor :: nat

definition cell_0 :: cell where
  "cell_0 = \<lparr>cell_type = ''markdown'', source = [
     ''# Performing unit conversions\<newline>'',
     ''\<newline>'',
     ''Conversion of timeseries data units is one of the most tedious aspects of modelling and scenario analysis -\<newline>'',
     ''and it is a frequent source for errors!\<newline>'',
     ''\<newline>'',
     ''The **pyam** function [convert_unit()](https://pyam-iamc.readthedocs.io/en/stable/api/iamdataframe.html#pyam.IamDataFrame.convert_unit) can support and simplify this task.\<newline>'',
     ''The function uses the Python package [pint](https://pint.readthedocs.io),\<newline>'',
     ''which natively handles conversion of standard (SI) units and commonly used equivalents \<newline>'',
     ''(e.g., exajoule to terawatt-hours, `EJ -> TWh`).\<newline>'',
     ''The **pint** package can also parse combined units (e.g., exajoule per year, `EJ/yr`).\<newline>'',
     ''\<newline>'',
     ''To better support common use cases when working with energy systems analysis and integrated-assessment scenarios,\<newline>'',
     ''the default [pint.UnitRegistry](https://pint.readthedocs.io/en/stable/developers_reference.html#pint.UnitRegistry)\<newline>'',
     ''used by **pyam** loads the unit definitions collected at [IAMconsortium/units](https://github.com/IAMconsortium/units).\<newline>'',
     ''This repository provides a wide range of conversion factors in a **pint**-compatible format\<newline>'',
     ''so that they can easily be used across multiple applications (**pyam** is just one of them).\<newline>'',
     ''\<newline>'',
     ''<div class=\"alert alert-info\">\<newline>'',
     ''    \<newline>'',
     ''If you have suggestions for additional units to be handled in **pyam** by default,\<newline>'',
     ''please [start an issue](https://github.com/IAMconsortium/units/issues) in the units repository -\<newline>'',
     ''or make a pull request!\<newline>'',
     ''\<newline>'',
     ''</div>\<newline>'',
     ''\<newline>'',
     ''## Overview\<newline>'',
     ''\<newline>'',
     ''This notebook illustrates the following features:\<newline>'',
     ''\<newline>'',
     ''0. Define timeseries data and initialize an **IamDataFrame**\<newline>'',
     ''1. Use the default **pint** unit conversion\<newline>'',
     ''2. Use a unit & conversion factor from the [IAMconsortium/units](https://github.com/IAMconsortium/units) repository\<newline>'',
     ''3. Use a custom conversion factor\<newline>'',
     ''4. Use contexts to specify conversion metrics\<newline>'',
     ''5. More advanced use cases with a unit registry'']\<rparr>"

definition cell_1 :: cell where
  "cell_1 = \<lparr>cell_type = ''code'', source = [
     ''import pandas as pd\<newline>'',
     ''import pyam'']\<rparr>"

definition cell_2 :: cell where
  "cell_2 = \<lparr>cell_type = ''markdown'', source = [
     ''## 0. Define timeseries data and initialize an IamDataFrame\<newline>'',
     ''\<newline>'',
     ''This tutorial uses a scenario similar to the data in the **first-steps tutorial** (here on\<newline>'',
     ''[GitHub](https://github.com/IAMconsortium/pyam/blob/master/doc/source/tutorials/pyam_first_steps.ipynb)\<newline>'',
     ''and on [read the docs](https://pyam-iamc.readthedocs.io/en/stable/tutorials/pyam_first_steps.html)).  \<newline>'',
     ''Please read that tutorial for the reference and further information.'']\<rparr>"

definition cell_3 :: cell where
  "cell_3 = \<lparr>cell_type = ''code'', source = [
     ''UNIT_DF = pd.DataFrame([\<newline>'',
     ''    ['MESSAGEix-GLOBIOM 1.0', 'CD-LINKS_NPi', 'World', 'Primary Energy', 'EJ/yr', 500.74, 636.79, 809.93, 1284.78],\<newline>'',
     ''    ['MESSAGEix-GLOBIOM 1.0', 'CD-LINKS_NPi', 'World', 'Emissions|CH4', 'Mt CH4/yr', 327.92, 354.35, 377.88, 403.98],\<newline>'',
     ''],\<newline>'',
     ''    columns=pyam.IAMC_IDX + [2010, 2030, 2050, 2100],\<newline>'',
     '')\<newline>'',
     ''\<newline>'',
     ''df = pyam.IamDataFrame(UNIT_DF)\<newline>'',
     ''df.timeseries()'']\<rparr>"

definition cell_4 :: cell where
  "cell_4 = \<lparr>cell_type = ''markdown'', source = [
     ''## 1. Use the default pint unit conversion\<newline>'',
     ''\<newline>'',
     ''As a first step, we illustrate unit conversion between \"standard formats\",\<newline>'',
     ''i.e., units that **pint** knows by default.\<newline>'',
     ''\<newline>'',
     ''In this particular case, we convert exajoule to petawatthours, `EJ/yr -> PWh/yr`.\<newline>'',
     ''Note that the timeseries data for other units (CO2 emissions in this case) are not changed.'']\<rparr>"

definition cell_5 :: cell where
  "cell_5 = \<lparr>cell_type = ''code'', source = [
     ''df.convert_unit('EJ/yr', to='PWh/yr').timeseries()'']\<rparr>"

definition cell_6 :: cell where
  "cell_6 = \<lparr>cell_type = ''markdown'', source = [
     ''The **pint** package usually does a good job at parsing orders of magnitude (peta, giga, mega, milli, ...)\<newline>'',
     ''and their abbreviations (`P`, `G`, `M`, `m`, ...)\<newline>'',
     ''as well as common units (centimeter, inch, kilometer, mile).\<newline>'',
     ''It also handles combined units like exajoule per year with various spellings:\<newline>'',
     ''`PWh/yr`, `PWh / yr` and `petawatthour / year` will all be treated as synonyms by the conversion.\<newline>'',
     ''The only difference is the format in the resulting **IamDataFrame**.\<newline>'',
     ''\<newline>'',
     ''[Read the docs](https://pint.readthedocs.io) for more information!'']\<rparr>"

definition cell_7 :: cell where
  "cell_7 = \<lparr>cell_type = ''code'', source = [
     ''df.convert_unit('EJ/yr', to='petawatthour / year').timeseries()'']\<rparr>"

definition cell_8 :: cell where
  "cell_8 = \<lparr>cell_type = ''markdown'', source = [
     ''## 2. Use a conversion factor from the shared energy & IAM units repository\<newline>'',
     ''\<newline>'',
     ''The **pint** package includes standard units, but many units often encountered in the context of energy systems analysis and integrated assessment scenarios are not defined by default.\<newline>'',
     ''\<newline>'',
     ''Therefore, the [IAMconsortium/units](https://github.com/IAMconsortium/units) repository\<newline>'',
     ''provides a common location to define such units.\<newline>'',
     ''The **pyam** package loads these definitions and uses them by default in any unit conversion.\<newline>'',
     ''\<newline>'',
     ''One entry defined there is 'tons of coal equivalent' (`tce`) as a measure of energy (content).\<newline>'',
     ''This is used in the next cell.'']\<rparr>"

definition cell_9 :: cell where
  "cell_9 = \<lparr>cell_type = ''code'', source = [
     ''df.convert_unit('EJ/yr', to='Gtce/yr').timeseries()'']\<rparr>"

definition cell_10 :: cell where
  "cell_10 = \<lparr>cell_type = ''markdown'', source = [
     ''## 3. Use a custom conversion factor\<newline>'',
     ''\<newline>'',
     ''In some cases, a user needs to specify a custom unit.\<newline>'',
     ''The `convert_unit()` function supports that by specifying a `factor` as a keyword argument.'']\<rparr>"

definition cell_11 :: cell where
  "cell_11 = \<lparr>cell_type = ''code'', source = [
     ''df.convert_unit('EJ/yr', to='my_unit', factor=2.3).timeseries()'']\<rparr>"

definition cell_12 :: cell where
  "cell_12 = \<lparr>cell_type = ''markdown'', source = [
     ''## 4. Use contexts to specify conversion metrics\<newline>'',
     ''\<newline>'',
     ''There are unit conversions where no \"default\" factor exists.\<newline>'',
     ''One such case is calculating the CO2-equivalent of CH4 emissions (or other greenhouse gases),\<newline>'',
     ''because the conversion depends on the species' \"global warming potential\"\<newline>'',
     ''and estimates for that potential are updated regularly in the literature.\<newline>'',
     ''\<newline>'',
     ''To facilitate such use cases, **pint** provides \"contexts\" to allow specifying the appropriate metric.\<newline>'',
     ''The [IAMconsortium/units](https://github.com/IAMconsortium/units) parametrizes multiple contexts\<newline>'',
     ''for the conversion of greenhouse gases;\<newline>'',
     ''see the [emissions module](https://github.com/IAMconsortium/units/blob/master/modules/emissions) for details.\<newline>'',
     ''\<newline>'',
     ''Performing a unit conversion with context is illustrated below using the IPCC AR5-GWP100 factor;\<newline>'',
     ''in this situation, not specifying a context would result in a **pint.DimensionalityError**.'']\<rparr>"

definition cell_13 :: cell where
  "cell_13 = \<lparr>cell_type = ''code'', source = [
     ''df.convert_unit('Mt CH4/yr', to='Mt CO2e/yr', context='AR5GWP100').timeseries()'']\<rparr>"

definition cell_14 :: cell where
  "cell_14 = \<lparr>cell_type = ''markdown'', source = [
     ''<div class=\"alert alert-info\">\<newline>'',
     ''\<newline>'',
     ''When working with contexts, it is important to track the information which metric was used.\<newline>'',
     ''This can be done either in the metadata of the resulting data (file)\<newline>'',
     ''or directly in the unit (or variable) of the timeseries.\<newline>'',
     ''See an illustration below for a simple workflow.\<newline>'',
     ''\<newline>'',
     ''</div>'']\<rparr>"

definition cell_15 :: cell where
  "cell_15 = \<lparr>cell_type = ''code'', source = [
     ''gwp = 'AR5GWP100'\<newline>'',
     ''target = 'Mt CO2e/yr'\<newline>'',
     ''(\<newline>'',
     ''    df.convert_unit('Mt CH4/yr', to=target, context=gwp)\<newline>'',
     ''    .rename(unit={target: f'{target} ({gwp})'})\<newline>'',
     ''    .timeseries()\<newline>'',
     '')'']\<rparr>"

definition cell_16 :: cell where
  "cell_16 = \<lparr>cell_type = ''markdown'', source = [
     ''## 5. More advanced use cases with a unit registry\<newline>'',
     ''\<newline>'',
     ''For more advanced use cases, **pyam** supports two further features: first, it can sometimes be useful\<newline>'',
     ''to work with the **UnitRegistry** used by default directly. This registry can be accessed\<newline>'',
     ''via [pint.get_application_registry()](https://pint.readthedocs.io/en/latest/developers_reference.html#pint.get_application_registry).'']\<rparr>"

definition cell_17 :: cell where
  "cell_17 = \<lparr>cell_type = ''code'', source = [
     ''import pint\<newline>'',
     ''pint.get_application_registry()'']\<rparr>"

definition cell_18 :: cell where
  "cell_18 = \<lparr>cell_type = ''markdown'', source = [
     ''In other use cases, it can be helpful to use one (or several) specific registries\<newline>'',
     ''instead of the default application registry.\<newline>'',
     ''The `convert_unit()` function therefore allows passing a `registry` as a keyword argument.\<newline>'',
     ''\<newline>'',
     ''The specifications below are the same as the example in section 3.'']\<rparr>"

definition cell_19 :: cell where
  "cell_19 = \<lparr>cell_type = ''code'', source = [
     ''ureg = pint.UnitRegistry()\<newline>'',
     ''ureg.define('my_unit = 1 / 2.3 * EJ/yr')\<newline>'',
     ''\<newline>'',
     ''df.convert_unit('EJ/yr', to='my_unit', registry=ureg).timeseries()'']\<rparr>"

definition unit_conversion_ipynb :: notebook where
  "unit_conversion_ipynb = \<lparr>cells =
     [cell_0, cell_1, cell_2, cell_3, cell_4, cell_5, cell_6, cell_7, cell_8, cell_9,
      cell_10, cell_11, cell_12, cell_13, cell_14, cell_15, cell_16, cell_17, cell_18, cell_19],
     nbformat = 4, nbformat_minor = 2\<rparr>"

subsection \<open>Reading the code cells\<close>

text \<open>
  The code cells hold Python. Two lexical readings of a line are enough for what is
  stated about the notebook: the identifiers of the line (maximal runs of letters, digits
  and underscores), and the names that are called, that is the identifiers directly
  followed by an opening parenthesis. Both readings look at the whole line, string
  literals included, so a keyword inside a string literal would be reported too.
\<close>

definition is_ident_char :: "char \<Rightarrow> bool" where
  "is_ident_char c =
     (let n = (of_char c :: nat)
      in (48 \<le> n \<and> n \<le> 57) \<or> (65 \<le> n \<and> n \<le> 90) \<or> n = 95 \<or> (97 \<le> n \<and> n \<le> 122))"

fun idents_aux :: "string \<Rightarrow> string \<Rightarrow> string list" where
  "idents_aux acc [] = (if acc = [] then [] else [rev acc])"
| "idents_aux acc (c # cs) =
     (if is_ident_char c then idents_aux (c # acc) cs
      else if acc = [] then idents_aux [] cs
      else rev acc # idents_aux [] cs)"

definition idents :: "string \<Rightarrow> string list" where
  "idents s = idents_aux [] s"

fun called_aux :: "string \<Rightarrow> string \<Rightarrow> string list" where
  "called_aux acc [] = []"
| "called_aux acc (c # cs) =
     (if is_ident_char c then called_aux (c # acc) cs
      else if c = CHR ''('' \<and> acc \<noteq> [] then rev acc # called_aux [] cs
      else called_aux [] cs)"

definition called_names :: "string \<Rightarrow> string list" where
  "called_names s = called_aux [] s"

definition cell_idents :: "cell \<Rightarrow> string list" where
  "cell_idents c = concat (map idents (source c))"

definition cell_calls :: "cell \<Rightarrow> string list" where
  "cell_calls c = concat (map called_names (source c))"

text \<open>
  The keywords of Python's compound statements and of its other control transfers. A
  cell none of whose identifiers is one of them is a straight sequence of imports,
  assignments and expression statements.
\<close>

definition control_keywords :: "string list" where
  "control_keywords =
     [''if'', ''elif'', ''else'', ''for'', ''while'', ''try'', ''except'', ''finally'',
      ''with'', ''def'', ''class'', ''lambda'', ''return'', ''yield'', ''break'',
      ''continue'', ''raise'', ''assert'', ''async'', ''await'', ''match'', ''case'']"

definition straight_line :: "cell \<Rightarrow> bool" where
  "straight_line c = list_all (\<lambda>w. w \<notin> set control_keywords) (cell_idents c)"

definition code_cells :: "notebook \<Rightarrow> cell list" where
  "code_cells nb = filter (\<lambda>c. cell_type c = ''code'') (cells nb)"

text \<open>
  The code cells that follow the one in which the \<open>IamDataFrame\<close> is constructed.
\<close>

definition cells_after_construction :: "notebook \<Rightarrow> cell list" where
  "cells_after_construction nb =
     tl (dropWhile (\<lambda>c. ''IamDataFrame'' \<notin> set (cell_calls c)) (code_cells nb))"

text \<open>
  A cell shows a conversion when its calls end with \<open>convert_unit\<close>, optionally followed
  by \<open>rename\<close>, and then \<open>timeseries\<close>.
\<close>

definition ends_with :: "'a list \<Rightarrow> 'a list \<Rightarrow> bool" where
  "ends_with suffix xs = (drop (length xs - length suffix) xs = suffix)"

definition shows_conversion :: "cell \<Rightarrow> bool" where
  "shows_conversion c =
     (ends_with [''convert_unit'', ''timeseries''] (cell_calls c) \<or>
      ends_with [''convert_unit'', ''rename'', ''timeseries''] (cell_calls c))"

section \<open>The timeseries table and unit conversion\<close>

text \<open>
  The second code cell builds the table \<open>UNIT_DF\<close>: two rows, each with the five index
  columns of \<open>pyam.IAMC_IDX\<close> (model, scenario, region, variable, unit, as the data model
  of the spec lists them) followed by one value for each of the years 2010, 2030, 2050
  and 2100. A row keeps its values with their years. The type of the values is a
  parameter of the row; the table of the tutorial is written with decimal fractions,
  which are read as exact rationals.
\<close>

record 'v row =
  model :: string
  scenario :: string
  region :: string
  variable :: string
  unit :: string
  data :: "(int \<times> 'v) list"

definition UNIT_DF :: "rat row list" where
  "UNIT_DF =
     [\<lparr>model = ''MESSAGEix-GLOBIOM 1.0'', scenario = ''CD-LINKS_NPi'', region = ''World'',
       variable = ''Primary Energy'', unit = ''EJ/yr'',
       data = [(2010, 500.74), (2030, 636.79), (2050, 809.93), (2100, 1284.78)]\<rparr>,
      \<lparr>model = ''MESSAGEix-GLOBIOM 1.0'', scenario = ''CD-LINKS_NPi'', region = ''World'',
       variable = ''Emissions|CH4'', unit = ''Mt CH4/yr'',
       data = [(2010, 327.92), (2030, 354.35), (2050, 377.88), (2100, 403.98)]\<rparr>]"

text \<open>
  The notebook calls \<open>convert_unit\<close>, a method of \<open>IamDataFrame\<close> whose implementation
  is not among the source files; it hands the conversion to an external library of
  units. That library's registry is a parameter here: it gives the factor from the
  current unit to the target unit under an optional context, or nothing, in which case
  the library raises its dimensionality error.
\<close>

datatype error = DimensionalityError

type_synonym 'v registry = "string \<Rightarrow> string \<Rightarrow> string option \<Rightarrow> 'v option"

text \<open>
  Modelled from the spec: the choice of the conversion factor inside \<open>convert_unit\<close>,
  which is missing from the source files. The spec names a conversion factor that is
  potentially context-dependent, custom factors and registries, and the dimensionality
  error of the external library when a conversion without the needed context is asked
  for. An explicit factor is used as it is; otherwise the registry is asked.
\<close>

definition conversion_factor ::
  "'v option \<Rightarrow> 'v registry \<Rightarrow> string \<Rightarrow> string \<Rightarrow> string option \<Rightarrow> error + 'v" where
  "conversion_factor factor registry current to context =
     (case factor of
        Some f \<Rightarrow> Inr f
      | None \<Rightarrow>
          (case registry current to context of
             Some f \<Rightarrow> Inr f
           | None \<Rightarrow> Inl DimensionalityError))"

text \<open>
  Modelled from the spec: the conversion of one row by \<open>convert_unit\<close>, which is missing
  from the source files. The spec describes unit conversion as the transformation of a
  numeric value from one measurement unit to another using a conversion factor: a row in
  the current unit gets the target unit and each of its values times the factor. A row
  in another unit has no value in the current unit and stays as it is.
\<close>

definition convert_row :: "string \<Rightarrow> string \<Rightarrow> 'v::times \<Rightarrow> 'v row \<Rightarrow> 'v row" where
  "convert_row current to f r =
     (if unit r = current
      then r\<lparr>unit := to, data := map (\<lambda>(year, v). (year, v * f)) (data r)\<rparr>
      else r)"

text \<open>
  Modelled from the spec: \<open>convert_unit\<close> itself, the method of \<open>IamDataFrame\<close> that is
  missing from the source files, with the arguments the notebook passes: the current
  unit, \<open>to\<close>, \<open>factor\<close>, \<open>registry\<close> and \<open>context\<close>. It returns a new table, or the
  error that the choice of the factor raised.
\<close>

definition convert_unit ::
  "'v::times row list \<Rightarrow> string \<Rightarrow> string \<Rightarrow> 'v option \<Rightarrow> 'v registry \<Rightarrow> string option
     \<Rightarrow> error + 'v row list" where
  "convert_unit df current to factor registry context =
     (case conversion_factor factor registry current to context of
        Inl e \<Rightarrow> Inl e
      | Inr f \<Rightarrow> Inr (map (convert_row current to f) df))"

section \<open>The workflow files\<close>

text \<open>
  Two workflow files follow the notebook. A workflow has a name, its triggers (the
  mapping under \<open>on\<close>) and its jobs. A job has a strategy (the matrix and \<open>fail-fast\<close>),
  the runner and display name (both expressions over the matrix) and its steps. A step
  has an optional name, an optional action (\<open>uses\<close>) with its arguments (\<open>with\<close>), an
  optional condition (\<open>if\<close>) and the lines of its \<open>run\<close> script.
\<close>

datatype trigger =
    Schedule "string list"
  | Push "string list"
  | Pull_request "string list"

datatype expr =
    Matrix_eq string string
  | Matrix_neq string string
  | And_also expr expr

record step =
  step_name :: "string option"
  uses :: "string option"
  with_args :: "(string \<times> string) list"
  if_cond :: "expr option"
  run :: "string list"

record job =
  matrix :: "(string \<times> string list) list"
  fail_fast :: bool
  runs_on :: string
  job_name :: string
  steps :: "step list"

record workflow =
  workflow_name :: string
  on_triggers :: "trigger list"
  jobs :: "(string \<times> job) list"

subsection \<open>The workflow \<open>nightly\<close>\<close>

definition step_checkout :: step where
  "step_checkout =
     \<lparr>step_name = None, uses = Some ''actions/checkout@v3'', with_args = [],
      if_cond = None, run = []\<rparr>"

definition step_setup_python :: step where
  "step_setup_python =
     \<lparr>step_name = Some ''Set up Python ${{ matrix.python-version }}'',
      uses = Some ''actions/setup-python@v4'',
      with_args = [(''python-version'', ''${{ matrix.python-version }}'')],
      if_cond = None, run = []\<rparr>"

definition nightly_step_pandoc :: step where
  "nightly_step_pandoc =
     \<lparr>step_name = Some ''Install Pandoc'', uses = Some ''r-lib/actions/setup-pandoc@v1'',
      with_args = [], if_cond = None, run = []\<rparr>"

definition nightly_step_install :: step where
  "nightly_step_install =
     \<lparr>step_name = Some ''Install dependencies and package'', uses = None, with_args = [],
      if_cond = None,
      run = [''python -m pip install --upgrade pip'',
             ''pip install -e .[tests,optional_plotting,optional_io_formats,tutorials,docs]'']\<rparr>"

definition nightly_step_test :: step where
  "nightly_step_test =
     \<lparr>step_name = Some ''Test with pytest (including Matplotlib)'', uses = None,
      with_args = [], if_cond = None, run = [''pytest tests --mpl'']\<rparr>"

definition nightly_step_docs :: step where
  "nightly_step_docs =
     \<lparr>step_name = Some ''Build the docs'', uses = None, with_args = [], if_cond = None,
      run = [''cd doc'', ''make html'', ''cd ..'']\<rparr>"

definition nightly_job :: job where
  "nightly_job =
     \<lparr>matrix = [(''os'', [''ubuntu-latest'']), (''python-version'', [''3.10''])],
      fail_fast = False,
      runs_on = ''${{ matrix.os }}'',
      job_name = ''${{ matrix.os }} py${{ matrix.python-version }}'',
      steps = [step_checkout, step_setup_python, nightly_step_pandoc, nightly_step_install,
               nightly_step_test, nightly_step_docs]\<rparr>"

definition nightly_yml :: workflow where
  "nightly_yml =
     \<lparr>workflow_name = ''nightly'',
      on_triggers = [Schedule [''0 5 * * TUE'']],
      jobs = [(''pytest'', nightly_job)]\<rparr>"

subsection \<open>The workflow \<open>pytest\<close>\<close>

definition pytest_step_install :: step where
  "pytest_step_install =
     \<lparr>step_name = Some ''Install dependencies and package'', uses = None, with_args = [],
      if_cond = None,
      run = [''pip install .[tests,optional_plotting,optional_io_formats,tutorials]'']\<rparr>"

definition pytest_step_test :: step where
  "pytest_step_test =
     \<lparr>step_name = Some ''Test with pytest'', uses = None, with_args = [],
      if_cond = Some (Matrix_neq ''python-version'' ''3.10''),
      run = [''pytest tests'']\<rparr>"

definition pytest_step_test_mpl_cov :: step where
  "pytest_step_test_mpl_cov =
     \<lparr>step_name = Some ''Test with pytest including Matplotlib & Codecov'', uses = None,
      with_args = [],
      if_cond = Some (Matrix_eq ''python-version'' ''3.10''),
      run = [''pytest tests --mpl --cov=./ --cov-report=xml'']\<rparr>"

definition pytest_step_codecov :: step where
  "pytest_step_codecov =
     \<lparr>step_name = Some ''Upload coverage report to Codecov'',
      uses = Some ''codecov/codecov-action@v1'',
      with_args = [(''file'', ''./coverage.xml''),
                   (''env_vars'', ''${{ matrix.os }} py${{ matrix.python-version }}'')],
      if_cond = Some (And_also (Matrix_eq ''os'' ''ubuntu-latest'')
                               (Matrix_eq ''python-version'' ''3.10'')),
      run = []\<rparr>"

definition pytest_job :: job where
  "pytest_job =
     \<lparr>matrix = [(''os'', [''macos-latest'', ''ubuntu-latest'', ''windows-latest'']),
                (''python-version'', [''3.10'', ''3.9'', ''3.8'', ''3.7''])],
      fail_fast = False,
      runs_on = ''${{ matrix.os }}'',
      job_name = ''${{ matrix.os }} py${{ matrix.python-version }}'',
      steps = [step_checkout, step_setup_python, pytest_step_install, pytest_step_test,
               pytest_step_test_mpl_cov, pytest_step_codecov]\<rparr>"

definition pytest_yml :: workflow where
  "pytest_yml =
     \<lparr>workflow_name = ''pytest'',
      on_triggers = [Push [''main''], Pull_request [''**'']],
      jobs = [(''pytest'', pytest_job)]\<rparr>"

definition workflows :: "workflow list" where
  "workflows = [nightly_yml, pytest_yml]"

subsection \<open>How the runner reads a workflow\<close>

text \<open>
  The workflow files are declarations; what they mean is fixed by the hosted runner.
  The part of that meaning the statements below rest on is written out here: the matrix
  is expanded into one cell for every combination of its values, a step runs in a cell
  when it has no condition or its condition holds there (all earlier steps having
  succeeded), a schedule is a five-field cron expression, and the branch filters of the
  push and pull-request triggers are glob patterns.
\<close>

fun matrix_cells :: "(string \<times> string list) list \<Rightarrow> (string \<times> string) list list" where
  "matrix_cells [] = [[]]"
| "matrix_cells ((k, vs) # rest) =
     concat (map (\<lambda>v. map (\<lambda>cell. (k, v) # cell) (matrix_cells rest)) vs)"

fun eval_expr :: "(string \<times> string) list \<Rightarrow> expr \<Rightarrow> bool" where
  "eval_expr cell (Matrix_eq k v) = (map_of cell k = Some v)"
| "eval_expr cell (Matrix_neq k v) = (map_of cell k \<noteq> Some v)"
| "eval_expr cell (And_also a b) = (eval_expr cell a \<and> eval_expr cell b)"

definition step_runs :: "(string \<times> string) list \<Rightarrow> step \<Rightarrow> bool" where
  "step_runs cell s = (case if_cond s of None \<Rightarrow> True | Some e \<Rightarrow> eval_expr cell e)"

definition steps_run :: "job \<Rightarrow> (string \<times> string) list \<Rightarrow> step list" where
  "steps_run j cell = filter (step_runs cell) (steps j)"

definition starts_with :: "string \<Rightarrow> string \<Rightarrow> bool" where
  "starts_with p s = (take (length p) s = p)"

fun occurs_in :: "string \<Rightarrow> string \<Rightarrow> bool" where
  "occurs_in p [] = (p = [])"
| "occurs_in p (c # cs) = (starts_with p (c # cs) \<or> occurs_in p cs)"

definition installs_dependencies :: "step \<Rightarrow> bool" where
  "installs_dependencies s = list_ex (occurs_in ''pip install'') (run s)"

definition invokes_pytest :: "step \<Rightarrow> bool" where
  "invokes_pytest s = list_ex (starts_with ''pytest'') (run s)"

definition builds_docs :: "step \<Rightarrow> bool" where
  "builds_docs s = list_ex (\<lambda>l. l = ''make html'') (run s)"

definition uploads_coverage :: "step \<Rightarrow> bool" where
  "uploads_coverage s =
     (case uses s of None \<Rightarrow> False | Some a \<Rightarrow> starts_with ''codecov/codecov-action'' a)"

text \<open>
  A job performs a duty when, in some cell of its matrix, a step with that duty runs.
\<close>

definition performs :: "job \<Rightarrow> (step \<Rightarrow> bool) \<Rightarrow> bool" where
  "performs j duty = list_ex (\<lambda>cell. list_ex duty (steps_run j cell)) (matrix_cells (matrix j))"

definition workflow_performs :: "workflow \<Rightarrow> (step \<Rightarrow> bool) \<Rightarrow> bool" where
  "workflow_performs w duty = list_ex (\<lambda>(n, j). performs j duty) (jobs w)"

text \<open>
  Cron expressions: minute, hour, day of month, month, day of week. A field is \<open>*\<close>, a
  decimal number or, for the day of the week, a three-letter day name; lists, ranges and
  steps do not occur in the workflows and are not read. Days of the week count from
  Sunday = 0. When both day fields are restricted, either may match.
\<close>

datatype cron_field = Every | Exactly nat

record cron =
  minute :: cron_field
  hour :: cron_field
  day_of_month :: cron_field
  month :: cron_field
  day_of_week :: cron_field

definition day_names :: "(string \<times> nat) list" where
  "day_names =
     [(''SUN'', 0), (''MON'', 1), (''TUE'', 2), (''WED'', 3), (''THU'', 4), (''FRI'', 5),
      (''SAT'', 6)]"

definition is_digit :: "char \<Rightarrow> bool" where
  "is_digit c = (let n = (of_char c :: nat) in 48 \<le> n \<and> n \<le> 57)"

definition decimal :: "string \<Rightarrow> nat option" where
  "decimal s =
     (if s \<noteq> [] \<and> list_all is_digit s
      then Some (foldl (\<lambda>n c. 10 * n + (of_char c - 48)) 0 s)
      else None)"

definition parse_field :: "(string \<times> nat) list \<Rightarrow> string \<Rightarrow> cron_field option" where
  "parse_field names s =
     (if s = ''*'' then Some Every
      else case decimal s of
             Some n \<Rightarrow> Some (Exactly n)
           | None \<Rightarrow> map_option Exactly (map_of names s))"

fun split_spaces_aux :: "string \<Rightarrow> string \<Rightarrow> string list" where
  "split_spaces_aux acc [] = (if acc = [] then [] else [rev acc])"
| "split_spaces_aux acc (c # cs) =
     (if c = CHR '' '' then (if acc = [] then split_spaces_aux [] cs
                             else rev acc # split_spaces_aux [] cs)
      else split_spaces_aux (c # acc) cs)"

definition parse_cron :: "string \<Rightarrow> cron option" where
  "parse_cron s =
     (case split_spaces_aux [] s of
        [mi, h, dm, mo, dw] \<Rightarrow>
          (case (parse_field [] mi, parse_field [] h, parse_field [] dm,
                 parse_field [] mo, parse_field day_names dw) of
             (Some a, Some b, Some c, Some d, Some e) \<Rightarrow>
               Some \<lparr>minute = a, hour = b, day_of_month = c, month = d, day_of_week = e\<rparr>
           | _ \<Rightarrow> None)
      | _ \<Rightarrow> None)"

fun field_matches :: "cron_field \<Rightarrow> nat \<Rightarrow> bool" where
  "field_matches Every n = True"
| "field_matches (Exactly k) n = (n = k)"

text \<open>
  A point in time is given by its minute, hour, day of the month, month and day of the
  week.
\<close>

record time_point =
  at_minute :: nat
  at_hour :: nat
  at_day_of_month :: nat
  at_month :: nat
  at_day_of_week :: nat

definition cron_fires :: "cron \<Rightarrow> time_point \<Rightarrow> bool" where
  "cron_fires c t =
     (field_matches (minute c) (at_minute t) \<and> field_matches (hour c) (at_hour t) \<and>
      field_matches (month c) (at_month t) \<and>
      (case (day_of_month c, day_of_week c) of
         (Exactly d, Exactly w) \<Rightarrow> at_day_of_month t = d \<or> at_day_of_week t = w
       | (dm, dw) \<Rightarrow> field_matches dm (at_day_of_month t) \<and> field_matches dw (at_day_of_week t)))"

text \<open>
  Branch filters: \<open>**\<close> stands for any run of characters, \<open>*\<close> for any run of characters
  without a slash, every other character for itself. The remaining special characters of
  filter patterns (\<open>?\<close>, \<open>+\<close>, brackets, \<open>!\<close>) do not occur in the workflows; a pattern
  that has one is not read and matches nothing.
\<close>

datatype glob_token = Lit char | Star | Double_star

fun glob_tokens :: "string \<Rightarrow> glob_token list" where
  "glob_tokens [] = []"
| "glob_tokens [c] = [if c = CHR ''*'' then Star else Lit c]"
| "glob_tokens (c # d # p) =
     (if c = CHR ''*'' \<and> d = CHR ''*'' then Double_star # glob_tokens p
      else (if c = CHR ''*'' then Star else Lit c) # glob_tokens (d # p))"

fun tokens_match :: "glob_token list \<Rightarrow> string \<Rightarrow> bool" where
  "tokens_match [] s = (s = [])"
| "tokens_match (Lit c # ts) [] = False"
| "tokens_match (Lit c # ts) (d # s) = (c = d \<and> tokens_match ts s)"
| "tokens_match (Star # ts) [] = tokens_match ts []"
| "tokens_match (Star # ts) (d # s) =
     (tokens_match ts (d # s) \<or> (d \<noteq> CHR ''/'' \<and> tokens_match (Star # ts) s))"
| "tokens_match (Double_star # ts) [] = tokens_match ts []"
| "tokens_match (Double_star # ts) (d # s) =
     (tokens_match ts (d # s) \<or> tokens_match (Double_star # ts) s)"

definition glob_match :: "string \<Rightarrow> string \<Rightarrow> bool" where
  "glob_match p b =
     (if list_ex (\<lambda>c. c \<in> set ''?+[]!'') p then False
      else tokens_match (glob_tokens p) b)"

datatype event = Scheduled_at time_point | Push_to string | Pull_request_to string

fun trigger_matches :: "trigger \<Rightarrow> event \<Rightarrow> bool" where
  "trigger_matches (Schedule crons) (Scheduled_at t) =
     list_ex (\<lambda>s. case parse_cron s of None \<Rightarrow> False | Some c \<Rightarrow> cron_fires c t) crons"
| "trigger_matches (Push patterns) (Push_to b) = list_ex (\<lambda>p. glob_match p b) patterns"
| "trigger_matches (Pull_request patterns) (Pull_request_to b) =
     list_ex (\<lambda>p. glob_match p b) patterns"
| "trigger_matches _ _ = False"

definition triggered_by :: "workflow \<Rightarrow> event \<Rightarrow> bool" where
  "triggered_by w e = list_ex (\<lambda>t. trigger_matches t e) (on_triggers w)"

section \<open>Properties of the notebook\<close>

lemma cells_of_notebook:
  "cells unit_conversion_ipynb =
     [cell_0, cell_1, cell_2, cell_3, cell_4, cell_5, cell_6, cell_7, cell_8, cell_9,
      cell_10, cell_11, cell_12, cell_13, cell_14, cell_15, cell_16, cell_17, cell_18, cell_19]"
  by (simp add: unit_conversion_ipynb_def)

lemma cell_types:
  "cell_type cell_0 = ''markdown''" "cell_type cell_1 = ''code''"
  "cell_type cell_2 = ''markdown''" "cell_type cell_3 = ''code''"
  "cell_type cell_4 = ''markdown''" "cell_type cell_5 = ''code''"
  "cell_type cell_6 = ''markdown''" "cell_type cell_7 = ''code''"
  "cell_type cell_8 = ''markdown''" "cell_type cell_9 = ''code''"
  "cell_type cell_10 = ''markdown''" "cell_type cell_11 = ''code''"
  "cell_type cell_12 = ''markdown''" "cell_type cell_13 = ''code''"
  "cell_type cell_14 = ''markdown''" "cell_type cell_15 = ''code''"
  "cell_type cell_16 = ''markdown''" "cell_type cell_17 = ''code''"
  "cell_type cell_18 = ''markdown''" "cell_type cell_19 = ''code''"
  by (simp_all add: cell_0_def cell_1_def cell_2_def cell_3_def cell_4_def cell_5_def
      cell_6_def cell_7_def cell_8_def cell_9_def cell_10_def cell_11_def cell_12_def
      cell_13_def cell_14_def cell_15_def cell_16_def cell_17_def cell_18_def cell_19_def)

lemma code_cells_of_notebook:
  "code_cells unit_conversion_ipynb =
     [cell_1, cell_3, cell_5, cell_7, cell_9, cell_11, cell_13, cell_15, cell_17, cell_19]"
  by (simp add: code_cells_def cells_of_notebook cell_types)

lemma calls_of_cells:
  "cell_calls cell_1 = []"
  "cell_calls cell_3 = [''DataFrame'', ''IamDataFrame'', ''timeseries'']"
  "cell_calls cell_5 = [''convert_unit'', ''timeseries'']"
  "cell_calls cell_7 = [''convert_unit'', ''timeseries'']"
  "cell_calls cell_9 = [''convert_unit'', ''timeseries'']"
  "cell_calls cell_11 = [''convert_unit'', ''timeseries'']"
  "cell_calls cell_13 = [''convert_unit'', ''timeseries'']"
  "cell_calls cell_15 = [''convert_unit'', ''rename'', ''timeseries'']"
  "cell_calls cell_17 = [''get_application_registry'']"
  "cell_calls cell_19 = [''UnitRegistry'', ''define'', ''convert_unit'', ''timeseries'']"
  by code_simp+

lemma straight_line_cells:
  "straight_line cell_1" "straight_line cell_3" "straight_line cell_5"
  "straight_line cell_7" "straight_line cell_9" "straight_line cell_11"
  "straight_line cell_13" "straight_line cell_15" "straight_line cell_17"
  "straight_line cell_19"
  by code_simp+

lemma cells_after_construction_of_notebook:
  "cells_after_construction unit_conversion_ipynb =
     [cell_5, cell_7, cell_9, cell_11, cell_13, cell_15, cell_17, cell_19]"
  by (simp add: cells_after_construction_def code_cells_of_notebook calls_of_cells)

text \<open>
  C9. Every cell of the notebook has the cell type \<open>markdown\<close> or \<open>code\<close>, and the
  document declares notebook format version 4.
\<close>

theorem notebook_cell_types:
  "(\<forall>c \<in> set (cells unit_conversion_ipynb). cell_type c = ''markdown'' \<or> cell_type c = ''code'')
   \<and> nbformat unit_conversion_ipynb = 4"
proof
  show "\<forall>c \<in> set (cells unit_conversion_ipynb). cell_type c = ''markdown'' \<or> cell_type c = ''code''"
    unfolding cells_of_notebook by (simp add: cell_types)
  show "nbformat unit_conversion_ipynb = 4"
    by (simp add: unit_conversion_ipynb_def)
qed

theorem notebook_cell_types_witness:
  "cell_3 \<in> set (cells unit_conversion_ipynb)
   \<and> (cell_type cell_3 = ''markdown'' \<or> cell_type cell_3 = ''code'')
   \<and> cell_type cell_3 = ''code''"
proof -
  have m: "cell_3 \<in> set (cells unit_conversion_ipynb)"
    by (simp add: cells_of_notebook)
  from notebook_cell_types m
  have "cell_type cell_3 = ''markdown'' \<or> cell_type cell_3 = ''code''"
    by blast
  with m show ?thesis
    by (simp add: cell_types)
qed

text \<open>
  C5, as stated, fails: the code cell that imports \<open>pint\<close> and calls
  \<open>pint.get_application_registry()\<close> comes after the construction of the
  \<open>IamDataFrame\<close> and calls neither \<open>convert_unit\<close> nor \<open>timeseries\<close>.
\<close>

theorem notebook_linear_script_counterexample:
  "cell_17 \<in> set (cells_after_construction unit_conversion_ipynb)
   \<and> cell_calls cell_17 = [''get_application_registry'']
   \<and> ''convert_unit'' \<notin> set (cell_calls cell_17)
   \<and> ''timeseries'' \<notin> set (cell_calls cell_17)
   \<and> \<not> shows_conversion cell_17"
  by (simp add: cells_after_construction_of_notebook calls_of_cells shows_conversion_def
      ends_with_def)

text \<open>
  C5, amended. The notebook is a straight-line script: no code cell has a loop, a branch
  or another control transfer. Its code cells call, in this order, nothing (the imports),
  then \<open>DataFrame\<close>, \<open>IamDataFrame\<close> and \<open>timeseries\<close> in the construction cell, so that
  each of the two tables is constructed once, and after that every code cell other than
  the one that looks up the application registry ends with a call of \<open>convert_unit\<close>,
  optionally followed by \<open>rename\<close>, whose result is shown by \<open>timeseries\<close>.
\<close>

theorem notebook_linear_script:
  "map cell_calls (code_cells unit_conversion_ipynb) =
     [[], [''DataFrame'', ''IamDataFrame'', ''timeseries''],
      [''convert_unit'', ''timeseries''], [''convert_unit'', ''timeseries''],
      [''convert_unit'', ''timeseries''], [''convert_unit'', ''timeseries''],
      [''convert_unit'', ''timeseries''], [''convert_unit'', ''rename'', ''timeseries''],
      [''get_application_registry''],
      [''UnitRegistry'', ''define'', ''convert_unit'', ''timeseries'']]
   \<and> count_list (concat (map cell_calls (code_cells unit_conversion_ipynb))) ''DataFrame'' = 1
   \<and> count_list (concat (map cell_calls (code_cells unit_conversion_ipynb))) ''IamDataFrame'' = 1
   \<and> (\<forall>c \<in> set (cells_after_construction unit_conversion_ipynb).
         c \<noteq> cell_17 \<longrightarrow> shows_conversion c)
   \<and> (\<forall>c \<in> set (code_cells unit_conversion_ipynb). straight_line c)"
proof -
  have calls: "map cell_calls (code_cells unit_conversion_ipynb) =
     [[], [''DataFrame'', ''IamDataFrame'', ''timeseries''],
      [''convert_unit'', ''timeseries''], [''convert_unit'', ''timeseries''],
      [''convert_unit'', ''timeseries''], [''convert_unit'', ''timeseries''],
      [''convert_unit'', ''timeseries''], [''convert_unit'', ''rename'', ''timeseries''],
      [''get_application_registry''],
      [''UnitRegistry'', ''define'', ''convert_unit'', ''timeseries'']]"
    by (simp add: code_cells_of_notebook calls_of_cells)
  have once: "count_list (concat (map cell_calls (code_cells unit_conversion_ipynb))) ''DataFrame'' = 1"
    "count_list (concat (map cell_calls (code_cells unit_conversion_ipynb))) ''IamDataFrame'' = 1"
    unfolding calls by simp_all
  have later: "\<forall>c \<in> set (cells_after_construction unit_conversion_ipynb).
      c \<noteq> cell_17 \<longrightarrow> shows_conversion c"
    unfolding cells_after_construction_of_notebook
    by (simp add: shows_conversion_def ends_with_def calls_of_cells)
  have straight: "\<forall>c \<in> set (code_cells unit_conversion_ipynb). straight_line c"
    unfolding code_cells_of_notebook by (simp add: straight_line_cells)
  from calls once later straight show ?thesis
    by blast
qed

theorem notebook_linear_script_witness:
  "cell_19 \<in> set (cells_after_construction unit_conversion_ipynb)
   \<and> cell_19 \<in> set (code_cells unit_conversion_ipynb)
   \<and> cell_calls cell_19 \<noteq> cell_calls cell_17
   \<and> shows_conversion cell_19 \<and> straight_line cell_19"
proof -
  have after: "cell_19 \<in> set (cells_after_construction unit_conversion_ipynb)"
    by (simp add: cells_after_construction_of_notebook)
  have code: "cell_19 \<in> set (code_cells unit_conversion_ipynb)"
    by (simp add: code_cells_of_notebook)
  have differs: "cell_calls cell_19 \<noteq> cell_calls cell_17"
    by (simp add: calls_of_cells)
  then have other: "cell_19 \<noteq> cell_17"
    by auto
  from notebook_linear_script after other have "shows_conversion cell_19"
    by blast
  moreover from notebook_linear_script code have "straight_line cell_19"
    by blast
  ultimately show ?thesis
    using after code differs by simp
qed

section \<open>Properties of unit conversion\<close>

lemma convert_unit_Inr:
  "convert_unit df current to factor registry context = Inr df' \<longleftrightarrow>
     (\<exists>f. conversion_factor factor registry current to context = Inr f
          \<and> df' = map (convert_row current to f) df)"
  by (auto simp: convert_unit_def split: sum.splits)

lemma convert_row_other: "unit r \<noteq> current \<Longrightarrow> convert_row current to f r = r"
  by (simp add: convert_row_def)

lemma convert_row_current:
  "unit r = current \<Longrightarrow>
     convert_row current to f r = r\<lparr>unit := to, data := map (\<lambda>(year, v). (year, v * f)) (data r)\<rparr>"
  by (simp add: convert_row_def)

lemma conversion_factor_cases:
  "conversion_factor factor registry current to context = Inr f \<longleftrightarrow>
     factor = Some f \<or> (factor = None \<and> registry current to context = Some f)"
  by (auto simp: conversion_factor_def split: option.splits)

text \<open>
  C2. A conversion that returns a table returns one of the same length in which every
  row whose unit is not the current unit is the row of the input. In the table of the
  tutorial the second row has the unit \<open>Mt CH4/yr\<close>, and every conversion of \<open>EJ/yr\<close>
  that returns leaves it as it is; a conversion with an explicit factor always returns.
\<close>

theorem convert_unit_other_units_unchanged:
  "(convert_unit df current to factor registry context = Inr df' \<longrightarrow>
      length df' = length df \<and>
      (\<forall>i < length df. unit (df ! i) \<noteq> current \<longrightarrow> df' ! i = df ! i))
   \<and> unit (UNIT_DF ! 1) = ''Mt CH4/yr''
   \<and> (convert_unit UNIT_DF ''EJ/yr'' to' factor' registry' context' = Inr df'' \<longrightarrow>
        df'' ! 1 = UNIT_DF ! 1)
   \<and> (\<exists>df3. convert_unit UNIT_DF ''EJ/yr'' to' (Some g) registry' context' = Inr df3)"
proof (intro conjI impI)
  assume "convert_unit df current to factor registry context = Inr df'"
  then obtain f where df': "df' = map (convert_row current to f) df"
    by (auto simp: convert_unit_Inr)
  show "length df' = length df"
    by (simp add: df')
  show "\<forall>i < length df. unit (df ! i) \<noteq> current \<longrightarrow> df' ! i = df ! i"
    by (simp add: df' convert_row_other)
next
  show "unit (UNIT_DF ! 1) = ''Mt CH4/yr''"
    by (simp add: UNIT_DF_def)
next
  assume "convert_unit UNIT_DF ''EJ/yr'' to' factor' registry' context' = Inr df''"
  then obtain f where "df'' = map (convert_row ''EJ/yr'' to' f) UNIT_DF"
    by (auto simp: convert_unit_Inr)
  then show "df'' ! 1 = UNIT_DF ! 1"
    by (simp add: UNIT_DF_def convert_row_def)
next
  show "\<exists>df3. convert_unit UNIT_DF ''EJ/yr'' to' (Some g) registry' context' = Inr df3"
    by (simp add: convert_unit_def conversion_factor_def)
qed

theorem convert_unit_other_units_unchanged_witness:
  "convert_unit UNIT_DF ''EJ/yr'' ''my_unit'' (Some 2.3) (\<lambda>current to context. None) None =
     Inr (map (convert_row ''EJ/yr'' ''my_unit'' 2.3) UNIT_DF)
   \<and> 1 < length UNIT_DF \<and> unit (UNIT_DF ! 1) \<noteq> ''EJ/yr''
   \<and> map (convert_row ''EJ/yr'' ''my_unit'' 2.3) UNIT_DF ! 1 = UNIT_DF ! 1
   \<and> unit (map (convert_row ''EJ/yr'' ''my_unit'' 2.3) UNIT_DF ! 0) = ''my_unit''"
proof -
  let ?reg = "\<lambda>current to context. None :: rat option"
  let ?out = "map (convert_row ''EJ/yr'' ''my_unit'' 2.3) UNIT_DF"
  have run: "convert_unit UNIT_DF ''EJ/yr'' ''my_unit'' (Some 2.3) ?reg None = Inr ?out"
    by (simp add: convert_unit_def conversion_factor_def)
  have len: "1 < length UNIT_DF"
    by (simp add: UNIT_DF_def)
  have other: "unit (UNIT_DF ! 1) \<noteq> ''EJ/yr''"
    by (simp add: UNIT_DF_def)
  have first: "unit (?out ! 0) = ''my_unit''"
    by (simp add: UNIT_DF_def convert_row_def)
  have "\<forall>i < length UNIT_DF. unit (UNIT_DF ! i) \<noteq> ''EJ/yr'' \<longrightarrow> ?out ! i = UNIT_DF ! i"
    using convert_unit_other_units_unchanged
      [of UNIT_DF "''EJ/yr''" "''my_unit''" "Some 2.3" ?reg None ?out] run
    by blast
  with len other have "?out ! 1 = UNIT_DF ! 1"
    by blast
  with run len other first show ?thesis
    by (intro conjI)
qed

text \<open>
  C4. When the explicit factor or, without one, the registry under the given context
  determines a factor \<open>f\<close> for the pair of units, the conversion returns a table of the
  same length, and every row with the current unit has the target unit, the same years
  and each of its values multiplied by \<open>f\<close>. The factor is the explicit one when it is
  given and the registry's otherwise; when neither gives one, the conversion fails with
  the dimensionality error.
\<close>

theorem convert_unit_multiplies:
  "(conversion_factor factor registry current to context = Inr f \<longrightarrow>
      (factor = Some f \<or> (factor = None \<and> registry current to context = Some f)) \<and>
      (\<exists>df'. convert_unit df current to factor registry context = Inr df' \<and>
         length df' = length df \<and>
         (\<forall>i < length df. unit (df ! i) = current \<longrightarrow>
            unit (df' ! i) = to \<and>
            map fst (data (df' ! i)) = map fst (data (df ! i)) \<and>
            map snd (data (df' ! i)) = map (\<lambda>v. v * f) (map snd (data (df ! i))))))
   \<and> (conversion_factor factor registry current to context = Inl DimensionalityError \<longrightarrow>
        factor = None \<and> registry current to context = None \<and>
        convert_unit df current to factor registry context = Inl DimensionalityError)"
proof (intro conjI impI)
  assume f: "conversion_factor factor registry current to context = Inr f"
  then show "factor = Some f \<or> (factor = None \<and> registry current to context = Some f)"
    by (simp add: conversion_factor_cases)
  let ?df' = "map (convert_row current to f) df"
  have "convert_unit df current to factor registry context = Inr ?df'"
    using f by (simp add: convert_unit_def)
  moreover have "length ?df' = length df"
    by simp
  moreover have "\<forall>i < length df. unit (df ! i) = current \<longrightarrow>
            unit (?df' ! i) = to \<and>
            map fst (data (?df' ! i)) = map fst (data (df ! i)) \<and>
            map snd (data (?df' ! i)) = map (\<lambda>v. v * f) (map snd (data (df ! i)))"
    by (auto simp: convert_row_current)
  ultimately show "\<exists>df'. convert_unit df current to factor registry context = Inr df' \<and>
         length df' = length df \<and>
         (\<forall>i < length df. unit (df ! i) = current \<longrightarrow>
            unit (df' ! i) = to \<and>
            map fst (data (df' ! i)) = map fst (data (df ! i)) \<and>
            map snd (data (df' ! i)) = map (\<lambda>v. v * f) (map snd (data (df ! i))))"
    by blast
next
  assume e: "conversion_factor factor registry current to context = Inl DimensionalityError"
  then show "factor = None" "registry current to context = None"
    by (auto simp: conversion_factor_def split: option.splits)
  from e show "convert_unit df current to factor registry context = Inl DimensionalityError"
    by (simp add: convert_unit_def)
qed

theorem convert_unit_multiplies_witness:
  "conversion_factor (Some 2.3) (\<lambda>current to context. None) ''EJ/yr'' ''my_unit'' None = Inr (2.3 :: rat)
   \<and> 0 < length UNIT_DF \<and> unit (UNIT_DF ! 0) = ''EJ/yr''
   \<and> (\<exists>df'. convert_unit UNIT_DF ''EJ/yr'' ''my_unit'' (Some 2.3) (\<lambda>current to context. None) None = Inr df'
        \<and> unit (df' ! 0) = ''my_unit''
        \<and> map snd (data (df' ! 0)) = [1151.702, 1464.617, 1862.839, 2954.994])"
proof -
  let ?reg = "\<lambda>current to context. None :: rat option"
  have f: "conversion_factor (Some 2.3) ?reg ''EJ/yr'' ''my_unit'' None = Inr (2.3 :: rat)"
    by (simp add: conversion_factor_def)
  have len: "0 < length UNIT_DF"
    by (simp add: UNIT_DF_def)
  have u: "unit (UNIT_DF ! 0) = ''EJ/yr''"
    by (simp add: UNIT_DF_def)
  have vals: "map snd (data (UNIT_DF ! 0)) = [500.74, 636.79, 809.93, 1284.78]"
    by (simp add: UNIT_DF_def)
  from f convert_unit_multiplies
    [of "Some 2.3" ?reg "''EJ/yr''" "''my_unit''" None "2.3" UNIT_DF]
  obtain df' where
    run: "convert_unit UNIT_DF ''EJ/yr'' ''my_unit'' (Some 2.3) ?reg None = Inr df'"
    and rows: "\<forall>i < length UNIT_DF. unit (UNIT_DF ! i) = ''EJ/yr'' \<longrightarrow>
            unit (df' ! i) = ''my_unit'' \<and>
            map fst (data (df' ! i)) = map fst (data (UNIT_DF ! i)) \<and>
            map snd (data (df' ! i)) = map (\<lambda>v. v * 2.3) (map snd (data (UNIT_DF ! i)))"
    by blast
  from rows len u
  have row0: "unit (df' ! 0) = ''my_unit'' \<and>
            map fst (data (df' ! 0)) = map fst (data (UNIT_DF ! 0)) \<and>
            map snd (data (df' ! 0)) = map (\<lambda>v. v * 2.3) (map snd (data (UNIT_DF ! 0)))"
    by blast
  then have products: "map snd (data (df' ! 0)) = [1151.702, 1464.617, 1862.839, 2954.994]"
    by (simp add: vals)
  have "\<exists>df'. convert_unit UNIT_DF ''EJ/yr'' ''my_unit'' (Some 2.3) ?reg None = Inr df'
        \<and> unit (df' ! 0) = ''my_unit''
        \<and> map snd (data (df' ! 0)) = [1151.702, 1464.617, 1862.839, 2954.994]"
  proof (intro exI conjI)
    show "convert_unit UNIT_DF ''EJ/yr'' ''my_unit'' (Some 2.3) ?reg None = Inr df'"
      by (rule run)
    show "unit (df' ! 0) = ''my_unit''"
      using row0 by (rule conjunct1)
    show "map snd (data (df' ! 0)) = [1151.702, 1464.617, 1862.839, 2954.994]"
      by (rule products)
  qed
  with f len u show ?thesis
    by (intro conjI)
qed

section \<open>Properties of the workflows\<close>

lemma cron_of_nightly:
  "parse_cron ''0 5 * * TUE'' =
     Some \<lparr>minute = Exactly 0, hour = Exactly 5, day_of_month = Every, month = Every,
           day_of_week = Exactly 2\<rparr>"
  by code_simp

lemma double_star_matches: "tokens_match [Double_star] b"
  by (induction b) simp_all

lemma glob_all_branches: "glob_match ''**'' b"
  by (simp add: glob_match_def double_star_matches)

lemma tokens_match_Lit:
  "tokens_match (Lit c # ts) s \<longleftrightarrow> (\<exists>s'. s = c # s' \<and> tokens_match ts s')"
  by (cases s) auto

lemma glob_main: "glob_match ''main'' b \<longleftrightarrow> b = ''main''"
proof -
  have "tokens_match [Lit CHR ''m'', Lit CHR ''a'', Lit CHR ''i'', Lit CHR ''n''] b \<longleftrightarrow> b = ''main''"
    unfolding tokens_match_Lit by auto
  then show ?thesis
    by (simp add: glob_match_def)
qed

lemma matrix_cells_pytest:
  "matrix_cells (matrix pytest_job) =
     [[(''os'', ''macos-latest''), (''python-version'', ''3.10'')],
      [(''os'', ''macos-latest''), (''python-version'', ''3.9'')],
      [(''os'', ''macos-latest''), (''python-version'', ''3.8'')],
      [(''os'', ''macos-latest''), (''python-version'', ''3.7'')],
      [(''os'', ''ubuntu-latest''), (''python-version'', ''3.10'')],
      [(''os'', ''ubuntu-latest''), (''python-version'', ''3.9'')],
      [(''os'', ''ubuntu-latest''), (''python-version'', ''3.8'')],
      [(''os'', ''ubuntu-latest''), (''python-version'', ''3.7'')],
      [(''os'', ''windows-latest''), (''python-version'', ''3.10'')],
      [(''os'', ''windows-latest''), (''python-version'', ''3.9'')],
      [(''os'', ''windows-latest''), (''python-version'', ''3.8'')],
      [(''os'', ''windows-latest''), (''python-version'', ''3.7'')]]"
  by (simp add: pytest_job_def)

lemma matrix_cells_nightly:
  "matrix_cells (matrix nightly_job) = [[(''os'', ''ubuntu-latest''), (''python-version'', ''3.10'')]]"
  by (simp add: nightly_job_def)

lemma nightly_triggers: "on_triggers nightly_yml = [Schedule [''0 5 * * TUE'']]"
  by (simp add: nightly_yml_def)

lemma pytest_triggers: "on_triggers pytest_yml = [Push [''main''], Pull_request [''**'']]"
  by (simp add: pytest_yml_def)

text \<open>
  C6. The workflow named \<open>nightly\<close> has the schedule \<open>0 5 * * TUE\<close> as its only
  trigger: it starts at minute 0 of hour 5 on day 2 of the week (Tuesday), whatever the
  day of the month and the month, that is once a week, and on no push or pull request.
  The workflow \<open>pytest\<close> has exactly the triggers push with the branch filter \<open>main\<close>
  and pull request with the branch filter \<open>**\<close>: it starts on a push to a branch
  exactly when the branch is \<open>main\<close>, on a pull request for every branch, and never on
  a schedule.
\<close>

theorem workflow_triggers:
  "workflow_name nightly_yml = ''nightly''
   \<and> on_triggers nightly_yml = [Schedule [''0 5 * * TUE'']]
   \<and> (triggered_by nightly_yml (Scheduled_at t) \<longleftrightarrow>
        at_minute t = 0 \<and> at_hour t = 5 \<and> at_day_of_week t = 2)
   \<and> \<not> triggered_by nightly_yml (Push_to b)
   \<and> \<not> triggered_by nightly_yml (Pull_request_to b)
   \<and> workflow_name pytest_yml = ''pytest''
   \<and> on_triggers pytest_yml = [Push [''main''], Pull_request [''**'']]
   \<and> (triggered_by pytest_yml (Push_to b) \<longleftrightarrow> b = ''main'')
   \<and> triggered_by pytest_yml (Pull_request_to b)
   \<and> \<not> triggered_by pytest_yml (Scheduled_at t)"
proof (intro conjI)
  show "workflow_name nightly_yml = ''nightly''"
    by (simp add: nightly_yml_def)
  show "on_triggers nightly_yml = [Schedule [''0 5 * * TUE'']]"
    by (rule nightly_triggers)
  show "triggered_by nightly_yml (Scheduled_at t) \<longleftrightarrow>
        at_minute t = 0 \<and> at_hour t = 5 \<and> at_day_of_week t = 2"
    by (simp add: triggered_by_def nightly_triggers cron_of_nightly cron_fires_def)
  show "\<not> triggered_by nightly_yml (Push_to b)"
    by (simp add: triggered_by_def nightly_triggers)
  show "\<not> triggered_by nightly_yml (Pull_request_to b)"
    by (simp add: triggered_by_def nightly_triggers)
  show "workflow_name pytest_yml = ''pytest''"
    by (simp add: pytest_yml_def)
  show "on_triggers pytest_yml = [Push [''main''], Pull_request [''**'']]"
    by (rule pytest_triggers)
  show "triggered_by pytest_yml (Push_to b) \<longleftrightarrow> b = ''main''"
    by (simp add: triggered_by_def pytest_triggers glob_main)
  show "triggered_by pytest_yml (Pull_request_to b)"
    by (simp add: triggered_by_def pytest_triggers glob_all_branches)
  show "\<not> triggered_by pytest_yml (Scheduled_at t)"
    by (simp add: triggered_by_def pytest_triggers)
qed

lemma jobs_of_workflows:
  "jobs nightly_yml = [(''pytest'', nightly_job)]" "jobs pytest_yml = [(''pytest'', pytest_job)]"
  by (simp_all add: nightly_yml_def pytest_yml_def)

lemma steps_of_jobs:
  "steps nightly_job = [step_checkout, step_setup_python, nightly_step_pandoc,
     nightly_step_install, nightly_step_test, nightly_step_docs]"
  "steps pytest_job = [step_checkout, step_setup_python, pytest_step_install,
     pytest_step_test, pytest_step_test_mpl_cov, pytest_step_codecov]"
  by (simp_all add: nightly_job_def pytest_job_def)

lemma step_facts:
  "if_cond step_checkout = None" "run step_checkout = []"
  "uses step_checkout = Some ''actions/checkout@v3''"
  "if_cond step_setup_python = None" "run step_setup_python = []"
  "uses step_setup_python = Some ''actions/setup-python@v4''"
  "if_cond nightly_step_pandoc = None" "run nightly_step_pandoc = []"
  "uses nightly_step_pandoc = Some ''r-lib/actions/setup-pandoc@v1''"
  "if_cond nightly_step_install = None" "uses nightly_step_install = None"
  "run nightly_step_install = [''python -m pip install --upgrade pip'',
     ''pip install -e .[tests,optional_plotting,optional_io_formats,tutorials,docs]'']"
  "if_cond nightly_step_test = None" "uses nightly_step_test = None"
  "run nightly_step_test = [''pytest tests --mpl'']"
  "if_cond nightly_step_docs = None" "uses nightly_step_docs = None"
  "run nightly_step_docs = [''cd doc'', ''make html'', ''cd ..'']"
  "if_cond pytest_step_install = None" "uses pytest_step_install = None"
  "run pytest_step_install =
     [''pip install .[tests,optional_plotting,optional_io_formats,tutorials]'']"
  "if_cond pytest_step_test = Some (Matrix_neq ''python-version'' ''3.10'')"
  "uses pytest_step_test = None" "run pytest_step_test = [''pytest tests'']"
  "if_cond pytest_step_test_mpl_cov = Some (Matrix_eq ''python-version'' ''3.10'')"
  "uses pytest_step_test_mpl_cov = None"
  "run pytest_step_test_mpl_cov = [''pytest tests --mpl --cov=./ --cov-report=xml'']"
  "if_cond pytest_step_codecov =
     Some (And_also (Matrix_eq ''os'' ''ubuntu-latest'') (Matrix_eq ''python-version'' ''3.10''))"
  "uses pytest_step_codecov = Some ''codecov/codecov-action@v1''"
  "run pytest_step_codecov = []"
  by (simp_all add: step_checkout_def step_setup_python_def nightly_step_pandoc_def
      nightly_step_install_def nightly_step_test_def nightly_step_docs_def
      pytest_step_install_def pytest_step_test_def pytest_step_test_mpl_cov_def
      pytest_step_codecov_def)

lemma duties_of_steps:
  "installs_dependencies nightly_step_install" "installs_dependencies pytest_step_install"
  "invokes_pytest nightly_step_test" "invokes_pytest pytest_step_test"
  "invokes_pytest pytest_step_test_mpl_cov" "builds_docs nightly_step_docs"
  "uploads_coverage pytest_step_codecov"
  "\<not> invokes_pytest step_checkout" "\<not> invokes_pytest step_setup_python"
  "\<not> invokes_pytest pytest_step_install" "\<not> invokes_pytest pytest_step_codecov"
  by (simp_all add: installs_dependencies_def invokes_pytest_def builds_docs_def
      uploads_coverage_def step_facts starts_with_def)

lemma matrix_of_jobs:
  "matrix nightly_job = [(''os'', [''ubuntu-latest'']), (''python-version'', [''3.10''])]"
  "matrix pytest_job =
     [(''os'', [''macos-latest'', ''ubuntu-latest'', ''windows-latest'']),
      (''python-version'', [''3.10'', ''3.9'', ''3.8'', ''3.7''])]"
  by (simp_all add: nightly_job_def pytest_job_def)

lemma steps_run_nightly:
  "steps_run nightly_job cell = steps nightly_job"
  by (simp add: steps_run_def steps_of_jobs step_runs_def step_facts)

lemma steps_run_pytest:
  "steps_run pytest_job cell =
     [step_checkout, step_setup_python, pytest_step_install] @
     (if map_of cell ''python-version'' \<noteq> Some ''3.10'' then [pytest_step_test] else []) @
     (if map_of cell ''python-version'' = Some ''3.10'' then [pytest_step_test_mpl_cov] else []) @
     (if map_of cell ''os'' = Some ''ubuntu-latest'' \<and> map_of cell ''python-version'' = Some ''3.10''
      then [pytest_step_codecov] else [])"
  by (simp add: steps_run_def steps_of_jobs step_runs_def step_facts)

text \<open>
  C7. There are two workflows. The one on the schedule runs the tests and builds the
  documentation; the one on push and pull request runs the tests and uploads the
  coverage report.
\<close>

theorem workflow_duties:
  "workflows = [nightly_yml, pytest_yml] \<and> length workflows = 2
   \<and> distinct (map workflow_name workflows)
   \<and> on_triggers nightly_yml = [Schedule [''0 5 * * TUE'']]
   \<and> workflow_performs nightly_yml invokes_pytest
   \<and> workflow_performs nightly_yml builds_docs
   \<and> on_triggers pytest_yml = [Push [''main''], Pull_request [''**'']]
   \<and> workflow_performs pytest_yml invokes_pytest
   \<and> workflow_performs pytest_yml uploads_coverage"
proof (intro conjI)
  show "workflows = [nightly_yml, pytest_yml]" "length workflows = 2"
    by (simp_all add: workflows_def)
  show "distinct (map workflow_name workflows)"
    by (simp add: workflows_def nightly_yml_def pytest_yml_def)
  show "on_triggers nightly_yml = [Schedule [''0 5 * * TUE'']]"
    by (rule nightly_triggers)
  show "on_triggers pytest_yml = [Push [''main''], Pull_request [''**'']]"
    by (rule pytest_triggers)
  show "workflow_performs nightly_yml invokes_pytest"
    by (simp add: workflow_performs_def performs_def jobs_of_workflows matrix_cells_nightly
        steps_run_nightly steps_of_jobs duties_of_steps)
  show "workflow_performs nightly_yml builds_docs"
    by (simp add: workflow_performs_def performs_def jobs_of_workflows matrix_cells_nightly
        steps_run_nightly steps_of_jobs duties_of_steps)
  show "workflow_performs pytest_yml invokes_pytest"
    by (simp add: workflow_performs_def performs_def jobs_of_workflows matrix_cells_pytest
        steps_run_pytest duties_of_steps)
  show "workflow_performs pytest_yml uploads_coverage"
    by (simp add: workflow_performs_def performs_def jobs_of_workflows matrix_cells_pytest
        steps_run_pytest duties_of_steps)
qed

text \<open>
  C8. Each workflow declares a matrix over \<open>os\<close> and \<open>python-version\<close>, and in every
  cell of its matrix a step that installs the dependencies and a step that invokes pytest
  run. The matrix of the push and pull-request workflow has the three operating systems
  and the four Python versions; its cells are all twelve combinations, each once, and
  \<open>fail-fast\<close> is off.
\<close>

theorem workflow_matrices:
  "(\<forall>w \<in> set workflows. \<forall>(n, j) \<in> set (jobs w).
       map fst (matrix j) = [''os'', ''python-version''] \<and>
       (\<forall>cell \<in> set (matrix_cells (matrix j)).
          list_ex installs_dependencies (steps_run j cell) \<and>
          list_ex invokes_pytest (steps_run j cell)))
   \<and> matrix pytest_job =
        [(''os'', [''macos-latest'', ''ubuntu-latest'', ''windows-latest'']),
         (''python-version'', [''3.10'', ''3.9'', ''3.8'', ''3.7''])]
   \<and> matrix_cells (matrix pytest_job) =
        concat (map (\<lambda>os. map (\<lambda>v. [(''os'', os), (''python-version'', v)])
                                [''3.10'', ''3.9'', ''3.8'', ''3.7''])
                    [''macos-latest'', ''ubuntu-latest'', ''windows-latest''])
   \<and> length (matrix_cells (matrix pytest_job)) = 12
   \<and> distinct (matrix_cells (matrix pytest_job))
   \<and> \<not> fail_fast pytest_job"
proof (intro conjI)
  have nightly: "map fst (matrix nightly_job) = [''os'', ''python-version'']"
    "\<forall>cell \<in> set (matrix_cells (matrix nightly_job)).
       list_ex installs_dependencies (steps_run nightly_job cell) \<and>
       list_ex invokes_pytest (steps_run nightly_job cell)"
    by (simp_all add: matrix_of_jobs matrix_cells_nightly steps_run_nightly steps_of_jobs
        duties_of_steps)
  have pytest: "map fst (matrix pytest_job) = [''os'', ''python-version'']"
    "\<forall>cell \<in> set (matrix_cells (matrix pytest_job)).
       list_ex installs_dependencies (steps_run pytest_job cell) \<and>
       list_ex invokes_pytest (steps_run pytest_job cell)"
    by (simp_all add: matrix_of_jobs matrix_cells_pytest steps_run_pytest duties_of_steps)
  from nightly pytest
  show "\<forall>w \<in> set workflows. \<forall>(n, j) \<in> set (jobs w).
       map fst (matrix j) = [''os'', ''python-version''] \<and>
       (\<forall>cell \<in> set (matrix_cells (matrix j)).
          list_ex installs_dependencies (steps_run j cell) \<and>
          list_ex invokes_pytest (steps_run j cell))"
    by (simp add: workflows_def jobs_of_workflows)
  show "matrix pytest_job =
        [(''os'', [''macos-latest'', ''ubuntu-latest'', ''windows-latest'']),
         (''python-version'', [''3.10'', ''3.9'', ''3.8'', ''3.7''])]"
    by (simp add: matrix_of_jobs)
  show "matrix_cells (matrix pytest_job) =
        concat (map (\<lambda>os. map (\<lambda>v. [(''os'', os), (''python-version'', v)])
                                [''3.10'', ''3.9'', ''3.8'', ''3.7''])
                    [''macos-latest'', ''ubuntu-latest'', ''windows-latest''])"
    by (simp add: matrix_cells_pytest)
  show "length (matrix_cells (matrix pytest_job)) = 12"
    by (simp add: matrix_cells_pytest)
  show "distinct (matrix_cells (matrix pytest_job))"
    by (simp add: matrix_cells_pytest)
  show "\<not> fail_fast pytest_job"
    by (simp add: pytest_job_def)
qed

theorem workflow_matrices_witness:
  "pytest_yml \<in> set workflows \<and> (''pytest'', pytest_job) \<in> set (jobs pytest_yml)
   \<and> [(''os'', ''windows-latest''), (''python-version'', ''3.7'')]
        \<in> set (matrix_cells (matrix pytest_job))
   \<and> list_ex installs_dependencies
        (steps_run pytest_job [(''os'', ''windows-latest''), (''python-version'', ''3.7'')])
   \<and> list_ex invokes_pytest
        (steps_run pytest_job [(''os'', ''windows-latest''), (''python-version'', ''3.7'')])"
proof -
  let ?cell = "[(''os'', ''windows-latest''), (''python-version'', ''3.7'')]"
  have w: "pytest_yml \<in> set workflows"
    by (simp add: workflows_def)
  have j: "(''pytest'', pytest_job) \<in> set (jobs pytest_yml)"
    by (simp add: jobs_of_workflows)
  have c: "?cell \<in> set (matrix_cells (matrix pytest_job))"
    by (simp add: matrix_cells_pytest)
  have every: "\<forall>w \<in> set workflows. \<forall>(n, j) \<in> set (jobs w).
       map fst (matrix j) = [''os'', ''python-version''] \<and>
       (\<forall>cell \<in> set (matrix_cells (matrix j)).
          list_ex installs_dependencies (steps_run j cell) \<and>
          list_ex invokes_pytest (steps_run j cell))"
    using workflow_matrices by (rule conjunct1)
  from bspec [OF bspec [OF every w] j]
  have "\<forall>cell \<in> set (matrix_cells (matrix pytest_job)).
          list_ex installs_dependencies (steps_run pytest_job cell) \<and>
          list_ex invokes_pytest (steps_run pytest_job cell)"
    by simp
  with c have "list_ex installs_dependencies (steps_run pytest_job ?cell) \<and>
          list_ex invokes_pytest (steps_run pytest_job ?cell)"
    by blast
  with w j c show ?thesis
    by blast
qed

text \<open>
  C10. In every cell of the matrix of the push and pull-request workflow, the step
  \<open>pytest tests\<close> runs exactly when the Python version is not \<open>3.10\<close>, the step
  \<open>pytest tests --mpl --cov=./ --cov-report=xml\<close> runs exactly when it is, so one of
  the two runs and not the other, and the steps of the cell that invoke pytest are that
  one step.
\<close>

theorem pytest_test_steps_exclusive:
  "run pytest_step_test = [''pytest tests'']
   \<and> run pytest_step_test_mpl_cov = [''pytest tests --mpl --cov=./ --cov-report=xml'']
   \<and> (\<forall>cell \<in> set (matrix_cells (matrix pytest_job)).
        (step_runs cell pytest_step_test \<longleftrightarrow> map_of cell ''python-version'' \<noteq> Some ''3.10'') \<and>
        (step_runs cell pytest_step_test_mpl_cov \<longleftrightarrow>
           map_of cell ''python-version'' = Some ''3.10'') \<and>
        (step_runs cell pytest_step_test \<longleftrightarrow> \<not> step_runs cell pytest_step_test_mpl_cov) \<and>
        filter invokes_pytest (steps_run pytest_job cell) =
          (if map_of cell ''python-version'' = Some ''3.10''
           then [pytest_step_test_mpl_cov] else [pytest_step_test]))"
proof (intro conjI ballI)
  show "run pytest_step_test = [''pytest tests'']"
    "run pytest_step_test_mpl_cov = [''pytest tests --mpl --cov=./ --cov-report=xml'']"
    by (simp_all add: step_facts)
next
  fix cell :: "(string \<times> string) list"
  show "step_runs cell pytest_step_test \<longleftrightarrow> map_of cell ''python-version'' \<noteq> Some ''3.10''"
    by (simp add: step_runs_def step_facts)
  show "step_runs cell pytest_step_test_mpl_cov \<longleftrightarrow> map_of cell ''python-version'' = Some ''3.10''"
    by (simp add: step_runs_def step_facts)
  show "step_runs cell pytest_step_test \<longleftrightarrow> \<not> step_runs cell pytest_step_test_mpl_cov"
    by (simp add: step_runs_def step_facts)
  show "filter invokes_pytest (steps_run pytest_job cell) =
          (if map_of cell ''python-version'' = Some ''3.10''
           then [pytest_step_test_mpl_cov] else [pytest_step_test])"
    by (simp add: steps_run_pytest duties_of_steps)
qed

theorem pytest_test_steps_exclusive_witness:
  "[(''os'', ''ubuntu-latest''), (''python-version'', ''3.10'')]
      \<in> set (matrix_cells (matrix pytest_job))
   \<and> step_runs [(''os'', ''ubuntu-latest''), (''python-version'', ''3.10'')] pytest_step_test_mpl_cov
   \<and> \<not> step_runs [(''os'', ''ubuntu-latest''), (''python-version'', ''3.10'')] pytest_step_test
   \<and> filter invokes_pytest
        (steps_run pytest_job [(''os'', ''ubuntu-latest''), (''python-version'', ''3.10'')])
      = [pytest_step_test_mpl_cov]
   \<and> [(''os'', ''macos-latest''), (''python-version'', ''3.8'')]
      \<in> set (matrix_cells (matrix pytest_job))
   \<and> step_runs [(''os'', ''macos-latest''), (''python-version'', ''3.8'')] pytest_step_test
   \<and> \<not> step_runs [(''os'', ''macos-latest''), (''python-version'', ''3.8'')] pytest_step_test_mpl_cov
   \<and> filter invokes_pytest
        (steps_run pytest_job [(''os'', ''macos-latest''), (''python-version'', ''3.8'')])
      = [pytest_step_test]"
proof -
  let ?new = "[(''os'', ''ubuntu-latest''), (''python-version'', ''3.10'')]"
  let ?old = "[(''os'', ''macos-latest''), (''python-version'', ''3.8'')]"
  have cells: "?new \<in> set (matrix_cells (matrix pytest_job))"
    "?old \<in> set (matrix_cells (matrix pytest_job))"
    by (simp_all add: matrix_cells_pytest)
  have versions: "map_of ?new ''python-version'' = Some ''3.10''"
    "map_of ?old ''python-version'' \<noteq> Some ''3.10''"
    by simp_all
  from pytest_test_steps_exclusive cells(1)
  have "(step_runs ?new pytest_step_test \<longleftrightarrow> map_of ?new ''python-version'' \<noteq> Some ''3.10'') \<and>
        (step_runs ?new pytest_step_test_mpl_cov \<longleftrightarrow>
           map_of ?new ''python-version'' = Some ''3.10'') \<and>
        (step_runs ?new pytest_step_test \<longleftrightarrow> \<not> step_runs ?new pytest_step_test_mpl_cov) \<and>
        filter invokes_pytest (steps_run pytest_job ?new) =
          (if map_of ?new ''python-version'' = Some ''3.10''
           then [pytest_step_test_mpl_cov] else [pytest_step_test])"
    by blast
  with versions(1)
  have new: "step_runs ?new pytest_step_test_mpl_cov" "\<not> step_runs ?new pytest_step_test"
    "filter invokes_pytest (steps_run pytest_job ?new) = [pytest_step_test_mpl_cov]"
    by simp_all
  from pytest_test_steps_exclusive cells(2)
  have "(step_runs ?old pytest_step_test \<longleftrightarrow> map_of ?old ''python-version'' \<noteq> Some ''3.10'') \<and>
        (step_runs ?old pytest_step_test_mpl_cov \<longleftrightarrow>
           map_of ?old ''python-version'' = Some ''3.10'') \<and>
        (step_runs ?old pytest_step_test \<longleftrightarrow> \<not> step_runs ?old pytest_step_test_mpl_cov) \<and>
        filter invokes_pytest (steps_run pytest_job ?old) =
          (if map_of ?old ''python-version'' = Some ''3.10''
           then [pytest_step_test_mpl_cov] else [pytest_step_test])"
    by blast
  with versions(2)
  have old: "step_runs ?old pytest_step_test" "\<not> step_runs ?old pytest_step_test_mpl_cov"
    "filter invokes_pytest (steps_run pytest_job ?old) = [pytest_step_test]"
    by simp_all
  from cells new old show ?thesis
    by blast
qed

end
